theory Spec2Isabelle
  imports Complex_Main
begin

section \<open>The Sinara Kasli target: clock/reset generator, SoC assembly, command line\<close>

text \<open>
  The development follows \<^verbatim>\<open>litex_boards/targets/sinara_kasli.py\<close>. The file wires
  components of the LiteX, LiteDRAM and LiteEth frameworks together; a framework object is
  a record of the arguments it was constructed with, and every attribute the Python code
  sets conditionally is an \<open>option\<close> field. Frequencies, periods and phases are Python
  floats in the source; they are reals here. The only arithmetic the file does on them is
  \<^verbatim>\<open>125e6/2\<close> and \<^verbatim>\<open>4*sys_clk_freq\<close>.
  An exception is a value of type \<open>error\<close>; a constructor that raises returns the
  object as it was when the exception left it, together with the exception.
\<close>

subsection \<open>Exceptions\<close>

datatype error =
    AssertionError
  | AttributeError string
  | IndexError
  | NotImplementedError string
  | SystemExit int

subsection \<open>Platform\<close>

text \<open>
  Modelled from the spec: the platform class \<^verbatim>\<open>litex_boards.platforms.sinara_kasli.Platform\<close>
  lives in another module of the repository. Per the spec it is "a physical-platform abstraction
  providing named pin requests [...] and a period-constraint registration call"; the model
  records each request (resource name and optional number) and each constraint, in order.
\<close>

record platform =
  platform_hw_rev :: string
  platform_toolchain :: string
  requested :: "(string \<times> nat option) list"
  period_constraints :: "(string \<times> real) list"

definition Platform :: "string \<Rightarrow> string \<Rightarrow> platform" where
  "Platform hw tc =
     \<lparr>platform_hw_rev = hw, platform_toolchain = tc, requested = [], period_constraints = []\<rparr>"

definition request :: "platform \<Rightarrow> string \<Rightarrow> nat option \<Rightarrow> platform" where
  "request p name number = p\<lparr>requested := requested p @ [(name, number)]\<rparr>"

definition add_period_constraint :: "platform \<Rightarrow> string \<Rightarrow> real \<Rightarrow> platform" where
  "add_period_constraint p clk period =
     p\<lparr>period_constraints := period_constraints p @ [(clk, period)]\<rparr>"

subsection \<open>Signals, primitives and clocking components\<close>

text \<open>
  A signal is a pad of a requested resource (\<^verbatim>\<open>clk125.p\<close>), a named \<^verbatim>\<open>Signal()\<close> attribute
  of the module, the clock of a clock domain (\<^verbatim>\<open>cd_sys.clk\<close>) or a constant.
\<close>

datatype signal =
    Pad string string
  | Sig string
  | ClockOf string
  | Const int

record special =
  primitive :: string
  ports :: "(string \<times> signal) list"

text \<open>
  \<^verbatim>\<open>S7MMCM\<close>: the speed grade, the registered input clock with its frequency, and the
  requested outputs (clock domain, frequency, phase) in the order of the calls.
  \<^verbatim>\<open>create_clkout\<close> is called without \<^verbatim>\<open>phase\<close> for all outputs but one; the
  framework's default, \<^verbatim>\<open>phase=0\<close> (spec, section 4.2), is \<open>default_phase\<close>.
\<close>

record s7mmcm =
  speedgrade :: int
  clkin :: "(signal \<times> real) option"
  clkouts :: "(string \<times> real \<times> real) list"

definition S7MMCM :: "int \<Rightarrow> s7mmcm" where
  "S7MMCM sg = \<lparr>speedgrade = sg, clkin = None, clkouts = []\<rparr>"

definition register_clkin :: "s7mmcm \<Rightarrow> signal \<Rightarrow> real \<Rightarrow> s7mmcm" where
  "register_clkin p clk freq = p\<lparr>clkin := Some (clk, freq)\<rparr>"

definition default_phase :: real where
  "default_phase = 0"

definition create_clkout :: "s7mmcm \<Rightarrow> string \<Rightarrow> real \<Rightarrow> real \<Rightarrow> s7mmcm" where
  "create_clkout p cd freq phase = p\<lparr>clkouts := clkouts p @ [(cd, freq, phase)]\<rparr>"

record qpll_settings =
  refclksel :: nat
  fbdiv :: nat
  fbdiv_45 :: nat
  refclk_div :: nat

datatype qpll_channel = QPLLChannel nat

text \<open>
  Modelled from the spec: \<^verbatim>\<open>QPLL\<close> belongs to LiteEth. The transceiver PLL "exposes an
  indexed collection of channels; channel 0 is the conventional default for the first
  Ethernet PHY", and has "at least one channel": one channel for the one settings record
  it is given.
\<close>

record qpll =
  gtrefclk0 :: signal
  qpllsettings0 :: qpll_settings
  channels :: "qpll_channel list"

definition QPLL :: "signal \<Rightarrow> qpll_settings \<Rightarrow> qpll" where
  "QPLL refclk settings =
     \<lparr>gtrefclk0 = refclk, qpllsettings0 = settings, channels = [QPLLChannel 0]\<rparr>"

subsection \<open>The clock/reset generator \<^verbatim>\<open>_CRG\<close>\<close>

text \<open>
  \<open>clock_domains\<close> lists the \<^verbatim>\<open>ClockDomain()\<close> attributes in creation order, by name
  (\<^verbatim>\<open>cd_sys4x\<close> is the domain \<open>sys4x\<close>). \<open>idelayctrl\<close> holds the domain the
  \<^verbatim>\<open>S7IDELAYCTRL\<close> was built on, \<open>qpll\<close> the transceiver PLL; both attributes exist
  only when the corresponding flag is set.
\<close>

record crg =
  clock_domains :: "string list"
  clk125_buf :: signal
  clk125_div2 :: signal
  specials :: "special list"
  pll :: s7mmcm
  idelayctrl :: "string option"
  qpll :: "qpll option"

definition CRG :: "platform \<Rightarrow> real \<Rightarrow> bool \<Rightarrow> bool \<Rightarrow> platform \<times> crg" where
  "CRG platform0 sys_clk_freq with_dram with_qpll =
    (let cds = [''sys''] @ (if with_dram then [''sys4x'', ''sys4x_dqs'', ''idelay''] else []);
         platform1 = request platform0 ''clk125_gtp'' None;
         platform2 = add_period_constraint platform1 ''clk125_gtp'' 8;
         buf = Sig ''clk125_buf'';
         div2 = Sig ''clk125_div2'';
         ibufds = \<lparr>primitive = ''IBUFDS_GTE2'',
                   ports = [(''i_CEB'', Const 0),
                            (''i_I'', Pad ''clk125_gtp'' ''p''),
                            (''i_IB'', Pad ''clk125_gtp'' ''n''),
                            (''o_O'', buf),
                            (''o_ODIV2'', div2)]\<rparr>;
         pll0 = S7MMCM (- 3);
         pll1 = register_clkin pll0 div2 (125000000 / 2);
         pll2 = create_clkout pll1 ''sys'' sys_clk_freq default_phase;
         pll3 = (if with_dram
                 then create_clkout
                        (create_clkout
                          (create_clkout pll2 ''sys4x'' (4 * sys_clk_freq) default_phase)
                          ''sys4x_dqs'' (4 * sys_clk_freq) 90)
                        ''idelay'' 200000000 default_phase
                 else pll2);
         idelay = (if with_dram then Some ''idelay'' else None);
         q = (if with_qpll
              then Some (QPLL buf \<lparr>refclksel = 1, fbdiv = 4, fbdiv_45 = 5, refclk_div = 1\<rparr>)
              else None)
     in (platform2,
         \<lparr>clock_domains = cds, clk125_buf = buf, clk125_div2 = div2, specials = [ibufds],
          pll = pll3, idelayctrl = idelay, qpll = q\<rparr>))"

subsection \<open>The SoC \<^verbatim>\<open>BaseSoC\<close>\<close>

text \<open>
  The parameters of \<^verbatim>\<open>BaseSoC.__init__\<close>. \<open>kwargs\<close> are the remaining keyword
  arguments, handed on to \<^verbatim>\<open>SoCCore\<close>; the two this file reads,
  \<^verbatim>\<open>integrated_main_ram_size\<close> and \<^verbatim>\<open>l2_size\<close>, are integers.
\<close>

record params =
  hw_rev :: string
  toolchain :: string
  sys_clk_freq :: real
  with_xadc :: bool
  with_dna :: bool
  with_ethernet :: bool
  with_etherbone :: bool
  eth_ip :: string
  eth_dynamic_ip :: bool
  with_spi_flash :: bool
  with_qpll :: bool
  kwargs :: "string \<rightharpoonup> int"

record dna =
  dna_sys_clk_freq :: real
  dna_clk :: signal

record ddrphy =
  ddrphy_pads :: string
  memtype :: string
  nphases :: nat
  ddrphy_sys_clk_freq :: real

record sdram_module =
  chip_name :: string
  chip_clk_freq :: real
  chip_rate :: string

record sdram =
  sdram_name :: string
  sdram_phy :: ddrphy
  sdram_module :: sdram_module
  l2_cache_size :: int

record ethphy =
  qpll_channel :: qpll_channel
  data_pads :: "string \<times> nat"
  ethphy_sys_clk_freq :: real
  with_csr :: bool

record ethernet =
  ethernet_phy :: ethphy
  dynamic_ip :: bool

record etherbone =
  etherbone_phy :: ethphy
  ip_address :: string
  arp_entries :: nat

record spi_flash =
  spi_mode :: string
  spi_module :: string
  spi_rate :: string
  with_master :: bool

text \<open>
  The attributes of the SoC object. \<open>xadc\<close> tells whether the \<^verbatim>\<open>XADC\<close> was added; the
  other optional components carry their construction arguments.
\<close>

record soc =
  soc_platform :: platform
  soc_crg :: crg
  clk_freq :: real
  integrated_main_ram_size :: int
  xadc :: bool
  soc_dna :: "dna option"
  soc_ddrphy :: "ddrphy option"
  soc_sdram :: "sdram option"
  soc_ethphy :: "ethphy option"
  soc_ethernet :: "ethernet option"
  soc_etherbone :: "etherbone option"
  soc_spi_flash :: "spi_flash option"

definition kwargs_get :: "(string \<rightharpoonup> int) \<Rightarrow> string \<Rightarrow> int \<Rightarrow> int" where
  "kwargs_get kw k d = (case kw k of None \<Rightarrow> d | Some v \<Rightarrow> v)"

text \<open>Lines 94 and 95: the two capability flags handed to \<^verbatim>\<open>_CRG\<close>.\<close>

definition BaseSoC_with_dram :: "params \<Rightarrow> bool" where
  "BaseSoC_with_dram c = (kwargs_get (kwargs c) ''integrated_main_ram_size'' 0 = 0)"

definition BaseSoC_with_qpll :: "params \<Rightarrow> bool" where
  "BaseSoC_with_qpll c = (with_qpll c \<or> with_ethernet c \<or> with_etherbone c)"

text \<open>
  Modelled from the spec: \<^verbatim>\<open>SoCCore.__init__\<close> belongs to LiteX. Of what it sets up, this
  file reads the platform, the system clock frequency (\<^verbatim>\<open>clk_freq\<close>) and
  \<^verbatim>\<open>integrated_main_ram_size\<close> (0 unless given).
\<close>

definition SoCCore_init :: "platform \<Rightarrow> crg \<Rightarrow> real \<Rightarrow> (string \<rightharpoonup> int) \<Rightarrow> soc" where
  "SoCCore_init p g f kw =
     \<lparr>soc_platform = p, soc_crg = g, clk_freq = f,
      integrated_main_ram_size = kwargs_get kw ''integrated_main_ram_size'' 0,
      xadc = False, soc_dna = None, soc_ddrphy = None, soc_sdram = None, soc_ethphy = None,
      soc_ethernet = None, soc_etherbone = None, soc_spi_flash = None\<rparr>"

definition add_sdram :: "soc \<Rightarrow> string \<Rightarrow> ddrphy \<Rightarrow> sdram_module \<Rightarrow> int \<Rightarrow> soc" where
  "add_sdram s name phy chip l2 =
     s\<lparr>soc_sdram := Some \<lparr>sdram_name = name, sdram_phy = phy, sdram_module = chip,
                          l2_cache_size = l2\<rparr>\<rparr>"

definition add_ethernet :: "soc \<Rightarrow> ethphy \<Rightarrow> bool \<Rightarrow> soc" where
  "add_ethernet s phy dyn = s\<lparr>soc_ethernet := Some \<lparr>ethernet_phy = phy, dynamic_ip = dyn\<rparr>\<rparr>"

definition add_etherbone :: "soc \<Rightarrow> ethphy \<Rightarrow> string \<Rightarrow> nat \<Rightarrow> soc" where
  "add_etherbone s phy ip n =
     s\<lparr>soc_etherbone := Some \<lparr>etherbone_phy = phy, ip_address = ip, arp_entries = n\<rparr>\<rparr>"

text \<open>
  Lines 124 to 140: the Ethernet PHY, the two protocol stacks and the SPI flash section.
  The keyword arguments of \<^verbatim>\<open>A7_1000BASEX\<close> are evaluated in order, so
  \<^verbatim>\<open>self.crg.qpll.channels[0]\<close> comes first: without the attribute \<^verbatim>\<open>qpll\<close> it raises
  AttributeError before the SFP pads are requested. In the SPI flash section the
  \<^verbatim>\<open>raise\<close> is the first statement, so the branch ends there.
\<close>

definition BaseSoC_ethernet :: "params \<Rightarrow> soc \<Rightarrow> soc \<times> error option" where
  "BaseSoC_ethernet c s =
     (case qpll (soc_crg s) of
        None \<Rightarrow> (s, Some (AttributeError ''qpll''))
      | Some q \<Rightarrow>
         (case channels q of
            [] \<Rightarrow> (s, Some IndexError)
          | ch # _ \<Rightarrow>
             (let s1 = s\<lparr>soc_platform := request (soc_platform s) ''sfp'' (Some 0)\<rparr>;
                  phy = \<lparr>qpll_channel = ch, data_pads = (''sfp'', 0),
                         ethphy_sys_clk_freq = clk_freq s1, with_csr = False\<rparr>;
                  s2 = s1\<lparr>soc_ethphy := Some phy\<rparr>;
                  s3 = (if with_ethernet c then add_ethernet s2 phy (eth_dynamic_ip c) else s2);
                  s4 = (if with_etherbone c then add_etherbone s3 phy (eth_ip c) 4 else s3)
              in if with_spi_flash c
                 then (s4, Some (NotImplementedError ''SPI Flash not supported on Sinara Kasli.''))
                 else (s4, None))))"

text \<open>
  Lines 91 to 120: platform, capability flags, \<^verbatim>\<open>_CRG\<close>, \<^verbatim>\<open>SoCCore\<close>, XADC, DNA and the
  DDR3 section. \<open>BaseSoC\<close> is \<^verbatim>\<open>BaseSoC.__init__\<close> as a whole.
\<close>

definition BaseSoC_core :: "params \<Rightarrow> soc" where
  "BaseSoC_core c =
     (let platform0 = Platform (hw_rev c) (toolchain c);
          with_dram = BaseSoC_with_dram c;
          with_qpll' = BaseSoC_with_qpll c;
          (platform1, g) = CRG platform0 (sys_clk_freq c) with_dram with_qpll';
          s0 = SoCCore_init platform1 g (sys_clk_freq c) (kwargs c);
          s1 = (if with_xadc c then s0\<lparr>xadc := True\<rparr> else s0);
          s2 = (if with_dna c
                then s1\<lparr>soc_dna := Some \<lparr>dna_sys_clk_freq = sys_clk_freq c,
                                         dna_clk = ClockOf ''sys''\<rparr>\<rparr>
                else s1)
      in if integrated_main_ram_size s2 = 0
         then (let s3 = s2\<lparr>soc_platform := request (soc_platform s2) ''ddram'' None\<rparr>;
                   phy = \<lparr>ddrphy_pads = ''ddram'', memtype = ''DDR3'', nphases = 4,
                          ddrphy_sys_clk_freq = sys_clk_freq c\<rparr>;
                   s4 = s3\<lparr>soc_ddrphy := Some phy\<rparr>
               in add_sdram s4 ''sdram'' phy
                    \<lparr>chip_name = ''MT41K256M16'', chip_clk_freq = sys_clk_freq c,
                     chip_rate = ''1:4''\<rparr>
                    (kwargs_get (kwargs c) ''l2_size'' 8192))
         else s2)"

definition BaseSoC :: "params \<Rightarrow> soc \<times> error option" where
  "BaseSoC c = BaseSoC_ethernet c (BaseSoC_core c)"

subsection \<open>The command line \<^verbatim>\<open>main\<close>\<close>

text \<open>
  The parsed arguments. \<open>args_build\<close>, \<open>args_load\<close>, \<open>args_toolchain\<close> and
  \<open>soc_argdict\<close> come from the framework's parser; the others are declared in \<^verbatim>\<open>main\<close>.
\<close>

record args =
  args_flash :: bool
  args_hw_rev :: string
  args_sys_clk_freq :: real
  args_with_xadc :: bool
  args_with_dna :: bool
  args_with_ethernet :: bool
  args_with_etherbone :: bool
  args_eth_ip :: string
  args_eth_dynamic_ip :: bool
  args_with_spi_flash :: bool
  args_toolchain :: string
  args_build :: bool
  args_load :: bool
  soc_argdict :: "string \<rightharpoonup> int"

text \<open>
  Modelled from the spec: the argument parser belongs to LiteX and argparse. The flags
  \<^verbatim>\<open>--with-ethernet\<close> and \<^verbatim>\<open>--with-etherbone\<close> are added to a mutually exclusive group
  ("Ethernet vs. Etherbone (mutually exclusive)"): given both, \<^verbatim>\<open>parse_args\<close> exits with
  status 2.
\<close>

definition parse_args :: "args \<Rightarrow> error + args" where
  "parse_args a =
     (if args_with_ethernet a \<and> args_with_etherbone a then Inl (SystemExit 2) else Inr a)"

text \<open>What \<^verbatim>\<open>main\<close> does to the builder and the programmer, in order.\<close>

datatype action =
    CreateBuilder
  | Build
  | CreateProgrammer
  | LoadBitstream string
  | Flash string

record run =
  run_soc :: "soc option"
  actions :: "action list"
  raised :: "error option"

text \<open>
  \<^verbatim>\<open>main\<close> does not pass \<^verbatim>\<open>with_qpll\<close>, which therefore has its default \<^verbatim>\<open>True\<close>.
  The \<^verbatim>\<open>assert\<close> statement is executed (the interpreter does not run with \<^verbatim>\<open>-O\<close>).
\<close>

definition main_params :: "args \<Rightarrow> params" where
  "main_params a =
     \<lparr>hw_rev = args_hw_rev a, toolchain = args_toolchain a,
      sys_clk_freq = args_sys_clk_freq a, with_xadc = args_with_xadc a,
      with_dna = args_with_dna a, with_ethernet = args_with_ethernet a,
      with_etherbone = args_with_etherbone a, eth_ip = args_eth_ip a,
      eth_dynamic_ip = args_eth_dynamic_ip a, with_spi_flash = args_with_spi_flash a,
      with_qpll = True, kwargs = soc_argdict a\<rparr>"

definition main :: "args \<Rightarrow> run" where
  "main argv =
     (case parse_args argv of
        Inl e \<Rightarrow> \<lparr>run_soc = None, actions = [], raised = Some e\<rparr>
      | Inr a \<Rightarrow>
         if args_with_etherbone a \<and> args_eth_dynamic_ip a
         then \<lparr>run_soc = None, actions = [], raised = Some AssertionError\<rparr>
         else
           (case BaseSoC (main_params a) of
              (s, Some e) \<Rightarrow> \<lparr>run_soc = Some s, actions = [], raised = Some e\<rparr>
            | (s, None) \<Rightarrow>
               (let acts0 = [CreateBuilder];
                    acts1 = (if args_build a then acts0 @ [Build] else acts0);
                    acts2 = (if args_load a
                             then acts1 @ [CreateProgrammer, LoadBitstream ''sram'']
                             else acts1)
                in if args_flash a
                   then \<lparr>run_soc = Some s, actions = acts2,
                         raised = Some (NotImplementedError ''Flash not supported on Sinara Kasli.'')\<rparr>
                   else \<lparr>run_soc = Some s, actions = acts2, raised = None\<rparr>)))"

subsection \<open>Default arguments\<close>

text \<open>
  The defaults of the signature of \<^verbatim>\<open>BaseSoC.__init__\<close> (lines 81 to 90; \<^verbatim>\<open>hw_rev\<close>
  has none), with no further keyword arguments, and the defaults the parser in \<^verbatim>\<open>main\<close>
  gives the arguments when the command line is empty.
\<close>

definition BaseSoC_defaults :: "string \<Rightarrow> params" where
  "BaseSoC_defaults hw =
     \<lparr>hw_rev = hw, toolchain = ''vivado'', sys_clk_freq = 125000000, with_xadc = False,
      with_dna = False, with_ethernet = False, with_etherbone = False,
      eth_ip = ''192.168.1.70'', eth_dynamic_ip = False, with_spi_flash = False,
      with_qpll = True, kwargs = Map.empty\<rparr>"

definition main_defaults :: args where
  "main_defaults =
     \<lparr>args_flash = False, args_hw_rev = ''v2.0'', args_sys_clk_freq = 125000000,
      args_with_xadc = False, args_with_dna = False, args_with_ethernet = False,
      args_with_etherbone = False, args_eth_ip = ''192.168.1.50'',
      args_eth_dynamic_ip = False, args_with_spi_flash = False, args_toolchain = ''vivado'',
      args_build = False, args_load = False, soc_argdict = Map.empty\<rparr>"

section \<open>Properties\<close>

subsection \<open>What the generator and the SoC are made of\<close>

text \<open>The generator in closed form: what \<^verbatim>\<open>_CRG.__init__\<close> leaves behind, by flag.\<close>

lemma CRG_eq:
  "CRG p f d q =
    (p\<lparr>requested := requested p @ [(''clk125_gtp'', None)],
       period_constraints := period_constraints p @ [(''clk125_gtp'', 8)]\<rparr>,
     \<lparr>clock_domains = (if d then [''sys'', ''sys4x'', ''sys4x_dqs'', ''idelay''] else [''sys'']),
      clk125_buf = Sig ''clk125_buf'', clk125_div2 = Sig ''clk125_div2'',
      specials = [\<lparr>primitive = ''IBUFDS_GTE2'',
                   ports = [(''i_CEB'', Const 0),
                            (''i_I'', Pad ''clk125_gtp'' ''p''),
                            (''i_IB'', Pad ''clk125_gtp'' ''n''),
                            (''o_O'', Sig ''clk125_buf''),
                            (''o_ODIV2'', Sig ''clk125_div2'')]\<rparr>],
      pll = \<lparr>speedgrade = - 3, clkin = Some (Sig ''clk125_div2'', 62500000),
             clkouts = (if d then [(''sys'', f, 0), (''sys4x'', 4 * f, 0),
                                   (''sys4x_dqs'', 4 * f, 90), (''idelay'', 200000000, 0)]
                        else [(''sys'', f, 0)])\<rparr>,
      idelayctrl = (if d then Some ''idelay'' else None),
      qpll = (if q then Some \<lparr>gtrefclk0 = Sig ''clk125_buf'',
                      qpllsettings0 = \<lparr>refclksel = 1, fbdiv = 4, fbdiv_45 = 5, refclk_div = 1\<rparr>,
                      channels = [QPLLChannel 0]\<rparr> else None)\<rparr>)"
  by (simp add: CRG_def Let_def request_def add_period_constraint_def S7MMCM_def
        register_clkin_def create_clkout_def default_phase_def QPLL_def)

lemma core_crg:
  "soc_crg (BaseSoC_core c) =
     snd (CRG (Platform (hw_rev c) (toolchain c)) (sys_clk_freq c)
            (BaseSoC_with_dram c) (BaseSoC_with_qpll c))"
  by (simp add: BaseSoC_core_def SoCCore_init_def add_sdram_def Let_def split_def)

lemma core_unset:
  "soc_ethphy (BaseSoC_core c) = None"
  "soc_ethernet (BaseSoC_core c) = None"
  "soc_etherbone (BaseSoC_core c) = None"
  "soc_spi_flash (BaseSoC_core c) = None"
  "clk_freq (BaseSoC_core c) = sys_clk_freq c"
  by (simp_all add: BaseSoC_core_def SoCCore_init_def add_sdram_def Let_def split_def)

lemma core_qpll:
  "qpll (soc_crg (BaseSoC_core c)) =
     (if BaseSoC_with_qpll c
      then Some \<lparr>gtrefclk0 = Sig ''clk125_buf'',
                 qpllsettings0 = \<lparr>refclksel = 1, fbdiv = 4, fbdiv_45 = 5, refclk_div = 1\<rparr>,
                 channels = [QPLLChannel 0]\<rparr>
      else None)"
  by (simp add: core_crg CRG_eq)

lemma ethernet_no_qpll:
  "qpll (soc_crg s) = None \<Longrightarrow> BaseSoC_ethernet c s = (s, Some (AttributeError ''qpll''))"
  by (simp add: BaseSoC_ethernet_def)

lemma ethernet_raised:
  "qpll (soc_crg s) = Some \<lparr>gtrefclk0 = r, qpllsettings0 = st, channels = ch # chs\<rparr> \<Longrightarrow>
   snd (BaseSoC_ethernet c s) =
     (if with_spi_flash c
      then Some (NotImplementedError ''SPI Flash not supported on Sinara Kasli.'')
      else None)"
  by (simp add: BaseSoC_ethernet_def Let_def)

lemma ethernet_fields:
  assumes "qpll (soc_crg s) = Some \<lparr>gtrefclk0 = r, qpllsettings0 = st, channels = ch # chs\<rparr>"
  shows "soc_ethphy (fst (BaseSoC_ethernet c s)) =
           Some \<lparr>qpll_channel = ch, data_pads = (''sfp'', 0),
                 ethphy_sys_clk_freq = clk_freq s, with_csr = False\<rparr>"
    and "soc_ethernet (fst (BaseSoC_ethernet c s)) =
           (if with_ethernet c
            then Some \<lparr>ethernet_phy = \<lparr>qpll_channel = ch, data_pads = (''sfp'', 0),
                          ethphy_sys_clk_freq = clk_freq s, with_csr = False\<rparr>,
                       dynamic_ip = eth_dynamic_ip c\<rparr>
            else soc_ethernet s)"
    and "soc_etherbone (fst (BaseSoC_ethernet c s)) =
           (if with_etherbone c
            then Some \<lparr>etherbone_phy = \<lparr>qpll_channel = ch, data_pads = (''sfp'', 0),
                          ethphy_sys_clk_freq = clk_freq s, with_csr = False\<rparr>,
                       ip_address = eth_ip c, arp_entries = 4\<rparr>
            else soc_etherbone s)"
    and "soc_spi_flash (fst (BaseSoC_ethernet c s)) = soc_spi_flash s"
    and "soc_crg (fst (BaseSoC_ethernet c s)) = soc_crg s"
  using assms
  by (simp_all add: BaseSoC_ethernet_def Let_def add_ethernet_def add_etherbone_def)

text \<open>The constructor as a whole: its generator, what it raises, and what it attaches.\<close>

lemma core_has_qpll:
  "BaseSoC_with_qpll c \<Longrightarrow>
   qpll (soc_crg (BaseSoC_core c)) =
     Some \<lparr>gtrefclk0 = Sig ''clk125_buf'',
           qpllsettings0 = \<lparr>refclksel = 1, fbdiv = 4, fbdiv_45 = 5, refclk_div = 1\<rparr>,
           channels = [QPLLChannel 0]\<rparr>"
  by (simp add: core_qpll)

lemma BaseSoC_no_qpll:
  "\<not> BaseSoC_with_qpll c \<Longrightarrow> BaseSoC c = (BaseSoC_core c, Some (AttributeError ''qpll''))"
  by (simp add: BaseSoC_def ethernet_no_qpll core_qpll)

lemma BaseSoC_crg:
  "soc_crg (fst (BaseSoC c)) =
     snd (CRG (Platform (hw_rev c) (toolchain c)) (sys_clk_freq c)
            (BaseSoC_with_dram c) (BaseSoC_with_qpll c))"
proof (cases "BaseSoC_with_qpll c")
  case True
  from ethernet_fields(5) [OF core_has_qpll [OF True]] show ?thesis
    by (simp add: BaseSoC_def core_crg)
next
  case False
  then show ?thesis
    by (simp add: BaseSoC_no_qpll core_crg)
qed

lemma BaseSoC_raised:
  "snd (BaseSoC c) =
     (if \<not> BaseSoC_with_qpll c then Some (AttributeError ''qpll'')
      else if with_spi_flash c
      then Some (NotImplementedError ''SPI Flash not supported on Sinara Kasli.'')
      else None)"
proof (cases "BaseSoC_with_qpll c")
  case True
  from ethernet_raised [OF core_has_qpll [OF True]] True show ?thesis
    by (simp add: BaseSoC_def)
next
  case False
  then show ?thesis
    by (simp add: BaseSoC_no_qpll)
qed

lemma BaseSoC_spi_flash: "soc_spi_flash (fst (BaseSoC c)) = None"
proof (cases "BaseSoC_with_qpll c")
  case True
  from ethernet_fields(4) [OF core_has_qpll [OF True]] show ?thesis
    by (simp add: BaseSoC_def core_unset)
next
  case False
  then show ?thesis
    by (simp add: BaseSoC_no_qpll core_unset)
qed

lemma BaseSoC_ethphy:
  "soc_ethphy (fst (BaseSoC c)) =
     (if BaseSoC_with_qpll c
      then Some \<lparr>qpll_channel = QPLLChannel 0, data_pads = (''sfp'', 0),
                 ethphy_sys_clk_freq = sys_clk_freq c, with_csr = False\<rparr>
      else None)"
proof (cases "BaseSoC_with_qpll c")
  case True
  from ethernet_fields(1) [OF core_has_qpll [OF True]] True show ?thesis
    by (simp add: BaseSoC_def core_unset)
next
  case False
  then show ?thesis
    by (simp add: BaseSoC_no_qpll core_unset)
qed



subsection \<open>Capability flags and the transceiver PLL\<close>

text \<open>
  Claim C1. The flag \<^verbatim>\<open>with_qpll\<close> that \<^verbatim>\<open>BaseSoC\<close> hands to \<^verbatim>\<open>_CRG\<close> is the disjunction
  of the explicit request, \<^verbatim>\<open>with_ethernet\<close> and \<^verbatim>\<open>with_etherbone\<close>, and the generator of
  the SoC holds a transceiver PLL exactly when that disjunction is true; so asking for
  Ethernet or Etherbone instantiates the PLL whatever the explicit flag says.
\<close>

theorem with_qpll_is_disjunction:
  "BaseSoC_with_qpll c = (with_qpll c \<or> with_ethernet c \<or> with_etherbone c) \<and>
   qpll (soc_crg (fst (BaseSoC c))) =
     (if with_qpll c \<or> with_ethernet c \<or> with_etherbone c
      then Some \<lparr>gtrefclk0 = Sig ''clk125_buf'',
                 qpllsettings0 = \<lparr>refclksel = 1, fbdiv = 4, fbdiv_45 = 5, refclk_div = 1\<rparr>,
                 channels = [QPLLChannel 0]\<rparr>
      else None)"
  by (simp add: BaseSoC_crg CRG_eq) (simp add: BaseSoC_with_qpll_def)

subsection \<open>DRAM clock domains\<close>

text \<open>
  Claim C5. \<^verbatim>\<open>with_dram\<close> is true exactly when \<^verbatim>\<open>integrated_main_ram_size\<close> is absent from
  the keyword arguments or is 0. A generator built with \<^verbatim>\<open>with_dram\<close> false has the one
  clock domain \<open>sys\<close>, requests the one output \<open>sys\<close> from the synthesizer and has no
  \<^verbatim>\<open>S7IDELAYCTRL\<close>; so has the generator of every SoC whose \<^verbatim>\<open>with_dram\<close> is false.
\<close>

theorem with_dram_policy:
  "BaseSoC_with_dram c =
     (case kwargs c ''integrated_main_ram_size'' of None \<Rightarrow> True | Some n \<Rightarrow> n = 0) \<and>
   clock_domains (snd (CRG p f False q)) = [''sys''] \<and>
   clkouts (pll (snd (CRG p f False q))) = [(''sys'', f, 0)] \<and>
   idelayctrl (snd (CRG p f False q)) = None \<and>
   (\<not> BaseSoC_with_dram c \<longrightarrow>
      clock_domains (soc_crg (fst (BaseSoC c))) = [''sys''] \<and>
      clkouts (pll (soc_crg (fst (BaseSoC c)))) = [(''sys'', sys_clk_freq c, 0)] \<and>
      idelayctrl (soc_crg (fst (BaseSoC c))) = None)"
  by (simp add: BaseSoC_crg CRG_eq)
     (simp add: BaseSoC_with_dram_def kwargs_get_def split: option.split)

theorem with_dram_policy_witness:
  "\<not> BaseSoC_with_dram
       ((BaseSoC_defaults ''v2.0'')\<lparr>kwargs := [''integrated_main_ram_size'' \<mapsto> 65536]\<rparr>) \<and>
   clock_domains (soc_crg (fst (BaseSoC
       ((BaseSoC_defaults ''v2.0'')\<lparr>kwargs := [''integrated_main_ram_size'' \<mapsto> 65536]\<rparr>))))
     = [''sys''] \<and>
   idelayctrl (soc_crg (fst (BaseSoC
       ((BaseSoC_defaults ''v2.0'')\<lparr>kwargs := [''integrated_main_ram_size'' \<mapsto> 65536]\<rparr>))))
     = None"
proof -
  have d: "\<not> BaseSoC_with_dram
       ((BaseSoC_defaults ''v2.0'')\<lparr>kwargs := [''integrated_main_ram_size'' \<mapsto> 65536]\<rparr>)"
    by (simp add: BaseSoC_with_dram_def kwargs_get_def BaseSoC_defaults_def)
  from d with_dram_policy
    [of "(BaseSoC_defaults ''v2.0'')\<lparr>kwargs := [''integrated_main_ram_size'' \<mapsto> 65536]\<rparr>"]
  show ?thesis by blast
qed

text \<open>
  Claim C6. With \<^verbatim>\<open>with_dram\<close> true, whatever the system clock frequency \<open>f\<close>, the
  synthesizer is asked for \<open>sys4x\<close> at \<open>4 * f\<close> with phase 0 and for \<open>sys4x_dqs\<close> at the
  same \<open>4 * f\<close> with phase 90 (next to \<open>sys\<close> at \<open>f\<close> and \<open>idelay\<close> at 200 MHz).
\<close>

theorem sys4x_dqs_quadrature:
  "clkouts (pll (snd (CRG p f True q))) =
     [(''sys'', f, 0), (''sys4x'', 4 * f, 0), (''sys4x_dqs'', 4 * f, 90),
      (''idelay'', 200000000, 0)] \<and>
   map_of (clkouts (pll (snd (CRG p f True q)))) ''sys4x'' = Some (4 * f, 0) \<and>
   map_of (clkouts (pll (snd (CRG p f True q)))) ''sys4x_dqs'' = Some (4 * f, 0 + 90)"
  by (simp add: CRG_eq)

subsection \<open>The reference clock\<close>

text \<open>
  Claim C10. Every generator has the one input buffer \<^verbatim>\<open>IBUFDS_GTE2\<close>, fed by the two pads
  of \<^verbatim>\<open>clk125_gtp\<close>, whose output \<^verbatim>\<open>O\<close> is the buffered clock and whose output \<^verbatim>\<open>ODIV2\<close> is
  the divided clock, two different signals; a period of 8 ns is registered for the input;
  the synthesizer's input is the divided clock at \<open>125000000 / 2\<close> Hz; and the transceiver
  PLL, when there is one, takes the buffered clock.
\<close>

theorem reference_clock_fanout:
  "specials (snd (CRG p f d q)) =
     [\<lparr>primitive = ''IBUFDS_GTE2'',
       ports = [(''i_CEB'', Const 0), (''i_I'', Pad ''clk125_gtp'' ''p''),
                (''i_IB'', Pad ''clk125_gtp'' ''n''),
                (''o_O'', clk125_buf (snd (CRG p f d q))),
                (''o_ODIV2'', clk125_div2 (snd (CRG p f d q)))]\<rparr>] \<and>
   clk125_buf (snd (CRG p f d q)) \<noteq> clk125_div2 (snd (CRG p f d q)) \<and>
   requested (fst (CRG p f d q)) = requested p @ [(''clk125_gtp'', None)] \<and>
   period_constraints (fst (CRG p f d q)) = period_constraints p @ [(''clk125_gtp'', 8)] \<and>
   clkin (pll (snd (CRG p f d q))) = Some (clk125_div2 (snd (CRG p f d q)), 125000000 / 2) \<and>
   map_option gtrefclk0 (qpll (snd (CRG p f d q))) =
     (if q then Some (clk125_buf (snd (CRG p f d q))) else None)"
  by (simp add: CRG_eq)

subsection \<open>The Ethernet PHY and the missing transceiver PLL\<close>

text \<open>
  Claim C2. A SoC asked for with \<^verbatim>\<open>with_qpll=False\<close> and neither Ethernet nor Etherbone,
  all else at its default (so \<^verbatim>\<open>with_dram\<close> is true), is not constructed: its generator has
  the four clock domains \<open>sys\<close>, \<open>sys4x\<close>, \<open>sys4x_dqs\<close>, \<open>idelay\<close> and no transceiver PLL,
  and then \<^verbatim>\<open>self.crg.qpll\<close> on line 125 raises AttributeError.
\<close>

theorem BaseSoC_without_qpll_raises:
  "BaseSoC_with_dram ((BaseSoC_defaults ''v2.0'')\<lparr>with_qpll := False\<rparr>) \<and>
   \<not> BaseSoC_with_qpll ((BaseSoC_defaults ''v2.0'')\<lparr>with_qpll := False\<rparr>) \<and>
   clock_domains (soc_crg (fst (BaseSoC ((BaseSoC_defaults ''v2.0'')\<lparr>with_qpll := False\<rparr>))))
     = [''sys'', ''sys4x'', ''sys4x_dqs'', ''idelay''] \<and>
   qpll (soc_crg (fst (BaseSoC ((BaseSoC_defaults ''v2.0'')\<lparr>with_qpll := False\<rparr>)))) = None \<and>
   snd (BaseSoC ((BaseSoC_defaults ''v2.0'')\<lparr>with_qpll := False\<rparr>))
     = Some (AttributeError ''qpll'')"
proof -
  have d: "BaseSoC_with_dram ((BaseSoC_defaults ''v2.0'')\<lparr>with_qpll := False\<rparr>)"
    by (simp add: BaseSoC_with_dram_def kwargs_get_def BaseSoC_defaults_def)
  have q: "\<not> BaseSoC_with_qpll ((BaseSoC_defaults ''v2.0'')\<lparr>with_qpll := False\<rparr>)"
    by (simp add: BaseSoC_with_qpll_def BaseSoC_defaults_def)
  from d q show ?thesis
    by (simp add: BaseSoC_crg BaseSoC_raised CRG_eq)
qed




text \<open>
  Claim C4. Construction succeeds only if one of \<^verbatim>\<open>with_qpll\<close>, \<^verbatim>\<open>with_ethernet\<close>,
  \<^verbatim>\<open>with_etherbone\<close> is set. With all three false the generator has no \<^verbatim>\<open>qpll\<close> attribute,
  the PHY is not built and the constructor raises AttributeError.
\<close>

theorem BaseSoC_requires_qpll:
  "(snd (BaseSoC c) = None \<longrightarrow> with_qpll c \<or> with_ethernet c \<or> with_etherbone c) \<and>
   (\<not> with_qpll c \<and> \<not> with_ethernet c \<and> \<not> with_etherbone c \<longrightarrow>
      qpll (soc_crg (fst (BaseSoC c))) = None \<and>
      soc_ethphy (fst (BaseSoC c)) = None \<and>
      snd (BaseSoC c) = Some (AttributeError ''qpll''))"
  by (simp add: BaseSoC_crg BaseSoC_raised BaseSoC_ethphy CRG_eq)
     (simp add: BaseSoC_with_qpll_def)

theorem BaseSoC_requires_qpll_witness:
  "snd (BaseSoC (BaseSoC_defaults ''v1.1'')) = None \<and>
   with_qpll (BaseSoC_defaults ''v1.1'') \<and>
   \<not> with_qpll ((BaseSoC_defaults ''v1.1'')\<lparr>with_qpll := False\<rparr>) \<and>
   \<not> with_ethernet ((BaseSoC_defaults ''v1.1'')\<lparr>with_qpll := False\<rparr>) \<and>
   \<not> with_etherbone ((BaseSoC_defaults ''v1.1'')\<lparr>with_qpll := False\<rparr>) \<and>
   soc_ethphy (fst (BaseSoC ((BaseSoC_defaults ''v1.1'')\<lparr>with_qpll := False\<rparr>))) = None \<and>
   snd (BaseSoC ((BaseSoC_defaults ''v1.1'')\<lparr>with_qpll := False\<rparr>))
     = Some (AttributeError ''qpll'')"
proof -
  have ok: "snd (BaseSoC (BaseSoC_defaults ''v1.1'')) = None"
    by (simp add: BaseSoC_raised BaseSoC_with_qpll_def BaseSoC_defaults_def)
  have off: "\<not> with_qpll ((BaseSoC_defaults ''v1.1'')\<lparr>with_qpll := False\<rparr>)"
    "\<not> with_ethernet ((BaseSoC_defaults ''v1.1'')\<lparr>with_qpll := False\<rparr>)"
    "\<not> with_etherbone ((BaseSoC_defaults ''v1.1'')\<lparr>with_qpll := False\<rparr>)"
    by (simp_all add: BaseSoC_defaults_def)
  have on: "with_qpll (BaseSoC_defaults ''v1.1'')"
    by (simp add: BaseSoC_defaults_def)
  from ok on off
    BaseSoC_requires_qpll [of "BaseSoC_defaults ''v1.1''"]
    BaseSoC_requires_qpll [of "(BaseSoC_defaults ''v1.1'')\<lparr>with_qpll := False\<rparr>"]
  show ?thesis by blast
qed

subsection \<open>Unsupported features and the command line\<close>

text \<open>
  \<^verbatim>\<open>main\<close> in closed form. Called from \<^verbatim>\<open>main\<close>, the constructor always has its transceiver
  PLL, so it raises only for \<^verbatim>\<open>--with-spi-flash\<close>.
\<close>

lemma main_BaseSoC_raised:
  "snd (BaseSoC (main_params a)) =
     (if args_with_spi_flash a
      then Some (NotImplementedError ''SPI Flash not supported on Sinara Kasli.'')
      else None)"
  by (simp add: BaseSoC_raised BaseSoC_with_qpll_def main_params_def)

lemma main_eq:
  "main a =
     (if args_with_ethernet a \<and> args_with_etherbone a
      then \<lparr>run_soc = None, actions = [], raised = Some (SystemExit 2)\<rparr>
      else if args_with_etherbone a \<and> args_eth_dynamic_ip a
      then \<lparr>run_soc = None, actions = [], raised = Some AssertionError\<rparr>
      else if args_with_spi_flash a
      then \<lparr>run_soc = Some (fst (BaseSoC (main_params a))), actions = [],
            raised = Some (NotImplementedError ''SPI Flash not supported on Sinara Kasli.'')\<rparr>
      else \<lparr>run_soc = Some (fst (BaseSoC (main_params a))),
            actions = CreateBuilder # (if args_build a then [Build] else []) @
                      (if args_load a then [CreateProgrammer, LoadBitstream ''sram''] else []),
            raised = (if args_flash a
                      then Some (NotImplementedError ''Flash not supported on Sinara Kasli.'')
                      else None)\<rparr>)"
proof -
  obtain s e where se: "BaseSoC (main_params a) = (s, e)"
    by (cases "BaseSoC (main_params a)")
  with main_BaseSoC_raised [of a]
  have e: "e = (if args_with_spi_flash a
                then Some (NotImplementedError ''SPI Flash not supported on Sinara Kasli.'')
                else None)"
    by simp
  show ?thesis
    by (simp add: main_def parse_args_def Let_def se e)
qed

text \<open>
  Claim C7. An invocation with both \<^verbatim>\<open>--with-etherbone\<close> and \<^verbatim>\<open>--eth-dynamic-ip\<close> ends in
  an exception before \<^verbatim>\<open>BaseSoC\<close> is entered: no SoC, no generator, no builder action. The
  exception is the AssertionError of line 160, or the parser's exit if \<^verbatim>\<open>--with-ethernet\<close>
  is given as well. With \<^verbatim>\<open>--with-etherbone\<close> and without \<^verbatim>\<open>--eth-dynamic-ip\<close> the assertion
  does not fail, and \<^verbatim>\<open>BaseSoC\<close> is entered unless the parser has rejected the command line.
\<close>

theorem etherbone_dynamic_ip_rejected:
  "(args_with_etherbone a \<and> args_eth_dynamic_ip a \<longrightarrow>
      raised (main a) = Some (if args_with_ethernet a then SystemExit 2 else AssertionError) \<and>
      run_soc (main a) = None \<and> actions (main a) = []) \<and>
   (args_with_etherbone a \<and> \<not> args_eth_dynamic_ip a \<longrightarrow>
      raised (main a) \<noteq> Some AssertionError \<and>
      (run_soc (main a) \<noteq> None) = (\<not> args_with_ethernet a))"
  by (simp add: main_eq)

theorem etherbone_dynamic_ip_rejected_witness:
  "args_with_etherbone (main_defaults\<lparr>args_with_etherbone := True, args_eth_dynamic_ip := True\<rparr>) \<and>
   args_eth_dynamic_ip (main_defaults\<lparr>args_with_etherbone := True, args_eth_dynamic_ip := True\<rparr>) \<and>
   raised (main (main_defaults\<lparr>args_with_etherbone := True, args_eth_dynamic_ip := True\<rparr>))
     = Some AssertionError \<and>
   run_soc (main (main_defaults\<lparr>args_with_etherbone := True, args_eth_dynamic_ip := True\<rparr>))
     = None \<and>
   args_with_etherbone (main_defaults\<lparr>args_with_etherbone := True\<rparr>) \<and>
   \<not> args_eth_dynamic_ip (main_defaults\<lparr>args_with_etherbone := True\<rparr>) \<and>
   raised (main (main_defaults\<lparr>args_with_etherbone := True\<rparr>)) \<noteq> Some AssertionError \<and>
   run_soc (main (main_defaults\<lparr>args_with_etherbone := True\<rparr>)) \<noteq> None"
proof -
  have a1:
    "args_with_etherbone
       (main_defaults\<lparr>args_with_etherbone := True, args_eth_dynamic_ip := True\<rparr>)"
    "args_eth_dynamic_ip
       (main_defaults\<lparr>args_with_etherbone := True, args_eth_dynamic_ip := True\<rparr>)"
    "\<not> args_with_ethernet
       (main_defaults\<lparr>args_with_etherbone := True, args_eth_dynamic_ip := True\<rparr>)"
    by (simp_all add: main_defaults_def)
  have a2:
    "args_with_etherbone (main_defaults\<lparr>args_with_etherbone := True\<rparr>)"
    "\<not> args_eth_dynamic_ip (main_defaults\<lparr>args_with_etherbone := True\<rparr>)"
    "\<not> args_with_ethernet (main_defaults\<lparr>args_with_etherbone := True\<rparr>)"
    by (simp_all add: main_defaults_def)
  from a1 a2
    etherbone_dynamic_ip_rejected
      [of "main_defaults\<lparr>args_with_etherbone := True, args_eth_dynamic_ip := True\<rparr>"]
    etherbone_dynamic_ip_rejected [of "main_defaults\<lparr>args_with_etherbone := True\<rparr>"]
  show ?thesis by simp
qed

text \<open>
  With \<^verbatim>\<open>with_spi_flash\<close> set the constructor always raises, and never attaches an SPI
  flash; which exception it raises depends on the transceiver PLL.
\<close>

lemma spi_flash_unsupported:
  "with_spi_flash c \<Longrightarrow>
   snd (BaseSoC c) =
     (if BaseSoC_with_qpll c
      then Some (NotImplementedError ''SPI Flash not supported on Sinara Kasli.'')
      else Some (AttributeError ''qpll'')) \<and>
   soc_spi_flash (fst (BaseSoC c)) = None"
  by (simp add: BaseSoC_raised BaseSoC_spi_flash)

text \<open>
  Claim C8. No constructor call attaches an SPI flash, and with \<^verbatim>\<open>with_spi_flash\<close> set the
  constructor raises \<^verbatim>\<open>NotImplementedError\<close> whenever it reaches the SPI flash section, that
  is, whenever the generator has its transceiver PLL. It does not reach the section
  otherwise: with \<^verbatim>\<open>with_spi_flash=True\<close> and \<^verbatim>\<open>with_qpll=False\<close>, and
  neither Ethernet nor Etherbone, the exception raised is the AttributeError of line 125.
\<close>

theorem spi_flash_without_qpll_raises_attribute_error:
  "with_spi_flash ((BaseSoC_defaults ''v2.0'')\<lparr>with_spi_flash := True, with_qpll := False\<rparr>) \<and>
   snd (BaseSoC ((BaseSoC_defaults ''v2.0'')\<lparr>with_spi_flash := True, with_qpll := False\<rparr>))
     = Some (AttributeError ''qpll'') \<and>
   snd (BaseSoC ((BaseSoC_defaults ''v2.0'')\<lparr>with_spi_flash := True, with_qpll := False\<rparr>))
     \<noteq> Some (NotImplementedError ''SPI Flash not supported on Sinara Kasli.'') \<and>
   soc_spi_flash
     (fst (BaseSoC ((BaseSoC_defaults ''v2.0'')\<lparr>with_spi_flash := True, with_qpll := False\<rparr>)))
     = None"
proof -
  have q: "\<not> BaseSoC_with_qpll
             ((BaseSoC_defaults ''v2.0'')\<lparr>with_spi_flash := True, with_qpll := False\<rparr>)"
    by (simp add: BaseSoC_with_qpll_def BaseSoC_defaults_def)
  have f: "with_spi_flash
             ((BaseSoC_defaults ''v2.0'')\<lparr>with_spi_flash := True, with_qpll := False\<rparr>)"
    by (simp add: BaseSoC_defaults_def)
  from q f show ?thesis
    by (simp add: BaseSoC_raised BaseSoC_spi_flash)
qed

text \<open>
  Claim C9, as stated, fails: with \<^verbatim>\<open>--load --flash\<close> a programmer is created and
  \<^verbatim>\<open>load_bitstream\<close> is called on it before \<^verbatim>\<open>NotImplementedError\<close> is raised.
\<close>

theorem flash_after_load_counterexample:
  "args_flash (main_defaults\<lparr>args_flash := True, args_load := True\<rparr>) \<and>
   raised (main (main_defaults\<lparr>args_flash := True, args_load := True\<rparr>))
     = Some (NotImplementedError ''Flash not supported on Sinara Kasli.'') \<and>
   actions (main (main_defaults\<lparr>args_flash := True, args_load := True\<rparr>))
     = [CreateBuilder, CreateProgrammer, LoadBitstream ''sram'']"
  by (simp add: main_eq) (simp add: main_defaults_def)

text \<open>
  Claim C9, amended. An invocation with \<^verbatim>\<open>--flash\<close> always ends in an exception, and
  \<^verbatim>\<open>prog.flash\<close> is never called. The exception is the \<^verbatim>\<open>NotImplementedError\<close> of line 185
  exactly when the parser, the assertion of line 160 and \<^verbatim>\<open>BaseSoC\<close> have let the run get
  that far; by then the builder has been created, the design built if \<^verbatim>\<open>--build\<close> was given,
  and, if \<^verbatim>\<open>--load\<close> was given, a programmer created and \<^verbatim>\<open>load_bitstream\<close> called on it.
  No programmer is created without \<^verbatim>\<open>--load\<close>.
\<close>

theorem flash_unsupported:
  assumes "args_flash a"
  shows "raised (main a) \<noteq> None \<and>
         Flash m \<notin> set (actions (main a)) \<and>
         (raised (main a) = Some (NotImplementedError ''Flash not supported on Sinara Kasli.''))
           = (\<not> (args_with_ethernet a \<and> args_with_etherbone a) \<and>
              \<not> (args_with_etherbone a \<and> args_eth_dynamic_ip a) \<and>
              \<not> args_with_spi_flash a) \<and>
         actions (main a) =
           (if \<not> (args_with_ethernet a \<and> args_with_etherbone a) \<and>
               \<not> (args_with_etherbone a \<and> args_eth_dynamic_ip a) \<and>
               \<not> args_with_spi_flash a
            then CreateBuilder # (if args_build a then [Build] else []) @
                 (if args_load a then [CreateProgrammer, LoadBitstream ''sram''] else [])
            else []) \<and>
         (CreateProgrammer \<in> set (actions (main a)))
           = (args_load a \<and>
              \<not> (args_with_ethernet a \<and> args_with_etherbone a) \<and>
              \<not> (args_with_etherbone a \<and> args_eth_dynamic_ip a) \<and>
              \<not> args_with_spi_flash a)"
  using assms by (simp add: main_eq)

theorem flash_unsupported_witness:
  "args_flash (main_defaults\<lparr>args_flash := True\<rparr>) \<and>
   raised (main (main_defaults\<lparr>args_flash := True\<rparr>))
     = Some (NotImplementedError ''Flash not supported on Sinara Kasli.'') \<and>
   actions (main (main_defaults\<lparr>args_flash := True\<rparr>)) = [CreateBuilder]"
proof -
  have f: "args_flash (main_defaults\<lparr>args_flash := True\<rparr>)"
    by (simp add: main_defaults_def)
  have g: "\<not> args_with_ethernet (main_defaults\<lparr>args_flash := True\<rparr>)"
    "\<not> args_with_etherbone (main_defaults\<lparr>args_flash := True\<rparr>)"
    "\<not> args_with_spi_flash (main_defaults\<lparr>args_flash := True\<rparr>)"
    "\<not> args_build (main_defaults\<lparr>args_flash := True\<rparr>)"
    "\<not> args_load (main_defaults\<lparr>args_flash := True\<rparr>)"
    by (simp_all add: main_defaults_def)
  from flash_unsupported [OF f] f g show ?thesis by simp
qed

end
